theory Spec2Isabelle
  imports Complex_Main
begin

section \<open>Values\<close>

text \<open>
  The program is \<^verbatim>\<open>opensir/models/model.py\<close>: the base class \<^verbatim>\<open>Model\<close> of a family of
  compartmental epidemic models, written against numpy and scipy.

  Numbers are modelled in exact arithmetic: a number is a real, or one of the three special
  values that numpy's division produces instead of raising (\<^verbatim>\<open>inf\<close>, \<^verbatim>\<open>-inf\<close>, \<^verbatim>\<open>nan\<close>).
  Rounding, overflow and the sign of zero are not modelled. Every number is a float: a
  parameter list made of Python ints only (which \<^verbatim>\<open>np.array\<close> would turn into an integer
  array) is outside the model.
\<close>

datatype npfloat = Fin real | PInf | NInf | NaN

text \<open>\<^verbatim>\<open>a < b\<close> on floats: every comparison with \<^verbatim>\<open>nan\<close> is false.\<close>

fun np_less :: "npfloat \<Rightarrow> npfloat \<Rightarrow> bool" where
  "np_less NaN _ = False"
| "np_less _ NaN = False"
| "np_less (Fin a) (Fin b) = (a < b)"
| "np_less (Fin _) PInf = True"
| "np_less (Fin _) NInf = False"
| "np_less PInf _ = False"
| "np_less NInf NInf = False"
| "np_less NInf _ = True"

fun np_add :: "npfloat \<Rightarrow> npfloat \<Rightarrow> npfloat" where
  "np_add NaN _ = NaN"
| "np_add _ NaN = NaN"
| "np_add (Fin a) (Fin b) = Fin (a + b)"
| "np_add PInf NInf = NaN"
| "np_add NInf PInf = NaN"
| "np_add PInf _ = PInf"
| "np_add _ PInf = PInf"
| "np_add NInf _ = NInf"
| "np_add _ NInf = NInf"

fun np_mul :: "npfloat \<Rightarrow> npfloat \<Rightarrow> npfloat" where
  "np_mul NaN _ = NaN"
| "np_mul _ NaN = NaN"
| "np_mul (Fin a) (Fin b) = Fin (a * b)"
| "np_mul (Fin a) PInf = (if a = 0 then NaN else if 0 < a then PInf else NInf)"
| "np_mul (Fin a) NInf = (if a = 0 then NaN else if 0 < a then NInf else PInf)"
| "np_mul PInf (Fin b) = (if b = 0 then NaN else if 0 < b then PInf else NInf)"
| "np_mul NInf (Fin b) = (if b = 0 then NaN else if 0 < b then NInf else PInf)"
| "np_mul PInf PInf = PInf"
| "np_mul NInf NInf = PInf"
| "np_mul PInf NInf = NInf"
| "np_mul NInf PInf = NInf"

text \<open>
  numpy's true division. A zero divisor raises nothing (numpy only warns): the quotient is
  \<^verbatim>\<open>nan\<close> for \<^verbatim>\<open>0 / 0\<close> and an infinity otherwise.
\<close>

fun np_div :: "npfloat \<Rightarrow> npfloat \<Rightarrow> npfloat" where
  "np_div NaN _ = NaN"
| "np_div _ NaN = NaN"
| "np_div (Fin a) (Fin b) =
     (if b \<noteq> 0 then Fin (a / b) else if a = 0 then NaN else if 0 < a then PInf else NInf)"
| "np_div (Fin _) PInf = Fin 0"
| "np_div (Fin _) NInf = Fin 0"
| "np_div PInf (Fin b) = (if 0 \<le> b then PInf else NInf)"
| "np_div NInf (Fin b) = (if 0 \<le> b then NInf else PInf)"
| "np_div PInf _ = NaN"
| "np_div NInf _ = NaN"

text \<open>\<^verbatim>\<open>np.sum\<close> of a one-dimensional array; the sum of no element is \<^verbatim>\<open>0.0\<close>.\<close>

primrec np_sum :: "npfloat list \<Rightarrow> npfloat" where
  "np_sum [] = Fin 0"
| "np_sum (x # xs) = np_add x (np_sum xs)"

text \<open>
  The values an argument \<^verbatim>\<open>p\<close> can be. An element is \<^verbatim>\<open>None\<close> or a float; a value is a
  single element (not iterable), a Python list of elements, or a one-dimensional numpy array
  (of dtype float64 when every element is a float, of dtype object otherwise).
\<close>

datatype scalar = PyNone | PyFloat npfloat

datatype pyval = Scalar scalar | PyList "scalar list" | NdArray "scalar list"

text \<open>The exceptions of the program: its own two classes, and the built-in ones it meets.\<close>

datatype exn =
    InvalidParameterError
  | InvalidNumberOfParametersError
  | AssertionError
  | TypeError
  | IndexError
  | ValueError
  | ZeroDivisionError
  | RuntimeError
  | Exception

text \<open>\<^verbatim>\<open>a > b\<close>: \<^verbatim>\<open>None\<close> cannot be ordered against a number.\<close>

fun py_gt :: "scalar \<Rightarrow> scalar \<Rightarrow> exn + bool" where
  "py_gt (PyFloat a) (PyFloat b) = Inr (np_less b a)"
| "py_gt _ _ = Inl TypeError"

text \<open>\<^verbatim>\<open>for param in p\<close>: a single element is not iterable.\<close>

fun py_iter :: "pyval \<Rightarrow> exn + scalar list" where
  "py_iter (Scalar _) = Inl TypeError"
| "py_iter (PyList xs) = Inr xs"
| "py_iter (NdArray xs) = Inr xs"

fun py_len :: "pyval \<Rightarrow> exn + nat" where
  "py_len (Scalar _) = Inl TypeError"
| "py_len (PyList xs) = Inr (length xs)"
| "py_len (NdArray xs) = Inr (length xs)"

text \<open>
  \<^verbatim>\<open>a / b\<close> on two elements. Elements of a Python list and of an object array are Python
  floats, whose division raises on a zero divisor; elements of a float64 array are numpy
  floats, whose division does not.
\<close>

fun py_truediv :: "bool \<Rightarrow> scalar \<Rightarrow> scalar \<Rightarrow> exn + npfloat" where
  "py_truediv numpy (PyFloat a) (PyFloat b) =
     (if \<not> numpy \<and> b = Fin 0 then Inl ZeroDivisionError else Inr (np_div a b))"
| "py_truediv numpy _ _ = Inl TypeError"

fun is_float :: "scalar \<Rightarrow> bool" where
  "is_float (PyFloat _) = True"
| "is_float PyNone = False"

text \<open>\<^verbatim>\<open>xs[i]\<close> for a non-negative index.\<close>

definition getitem :: "'a list \<Rightarrow> nat \<Rightarrow> exn + 'a" where
  "getitem xs i = (if i < length xs then Inr (xs ! i) else Inl IndexError)"

section \<open>The model class\<close>

text \<open>
  The instance attributes that \<^verbatim>\<open>__init__\<close> creates. \<^verbatim>\<open>p\<close> holds whatever value was stored;
  the other attributes are \<^verbatim>\<open>None\<close> or an array. A matrix is the list of its rows.
\<close>

record model =
  sol :: "npfloat list list option"
  p :: pyval
  pop :: "npfloat option"
  w0 :: "npfloat list option"
  pcov :: "npfloat list list option"
  fit_input :: "nat option"

definition init :: model where
  "init = \<lparr>sol = None, p = Scalar PyNone, pop = None, w0 = None, pcov = None,
           fit_input = None\<rparr>"

text \<open>
  The derivative function of a model: state, time and parameters to the rates of change.
\<close>

type_synonym deriv = "npfloat list \<Rightarrow> npfloat \<Rightarrow> pyval \<Rightarrow> npfloat list"

text \<open>
  What a subclass overrides: the class attributes \<^verbatim>\<open>NUM_PARAMS\<close> and \<^verbatim>\<open>NUM_IC\<close> (read
  through \<^verbatim>\<open>self.__class__\<close>), the property \<^verbatim>\<open>_model\<close> and the hook \<^verbatim>\<open>_update_ic\<close>.
  \<^verbatim>\<open>Model\<close> is the base class itself: its \<^verbatim>\<open>_model\<close> raises, its hook does nothing.
\<close>

record variant =
  NUM_PARAMS :: nat
  NUM_IC :: nat
  priv_model :: "exn + deriv"
  priv_update_ic :: "model \<Rightarrow> model"

definition Model :: variant where
  "Model = \<lparr>NUM_PARAMS = 4, NUM_IC = 4, priv_model = Inl Exception,
            priv_update_ic = (\<lambda>self. self)\<rparr>"

text \<open>\<^verbatim>\<open>return self\<close>: the methods that chain return the receiver.\<close>

datatype ret = Self

text \<open>
  The words of the specification: a strictly positive parameter, a non-negative count, a
  fraction of the population.
\<close>

fun positive :: "scalar \<Rightarrow> bool" where
  "positive (PyFloat v) = np_less (Fin 0) v"
| "positive PyNone = False"



subsection \<open>set_params\<close>

text \<open>
  The loop \<^verbatim>\<open>for param in p: assert param > 0\<close>, over the elements of \<^verbatim>\<open>p\<close>. The
  assertions are executed: Python is not run with \<^verbatim>\<open>-O\<close>, which removes them.
\<close>

fun assert_positive :: "scalar list \<Rightarrow> exn + unit" where
  "assert_positive [] = Inr ()"
| "assert_positive (param # rest) =
     (case py_gt param (PyFloat (Fin 0)) of
        Inl e \<Rightarrow> Inl e
      | Inr b \<Rightarrow> if b then assert_positive rest else Inl AssertionError)"

text \<open>The body of the \<^verbatim>\<open>try\<close>: iterating over \<^verbatim>\<open>p\<close> can itself raise.\<close>

definition try_body :: "pyval \<Rightarrow> exn + unit" where
  "try_body pv = (case py_iter pv of Inl e \<Rightarrow> Inl e | Inr xs \<Rightarrow> assert_positive xs)"

text \<open>
  A method returns the exception raised or its value, and the state of the instance when it
  left. The bare \<^verbatim>\<open>except:\<close> turns every exception of the \<^verbatim>\<open>try\<close> into
  \<^verbatim>\<open>InvalidParameterError\<close>. \<^verbatim>\<open>initial_conds\<close> is an array of floats.
\<close>

definition set_params :: "variant \<Rightarrow> model \<Rightarrow> pyval \<Rightarrow> npfloat list \<Rightarrow> (exn + ret) \<times> model" where
  "set_params V self pv initial_conds =
     (let num_params = NUM_PARAMS V; num_ic = NUM_IC V in
      case try_body pv of
        Inl _ \<Rightarrow> (Inl InvalidParameterError, self)
      | Inr _ \<Rightarrow>
          (case py_len pv of
             Inl e \<Rightarrow> (Inl e, self)
           | Inr n \<Rightarrow>
               if n \<noteq> num_params \<or> length initial_conds \<noteq> num_ic
               then (Inl InvalidNumberOfParametersError, self)
               else
                 let total = np_sum initial_conds in
                 (Inr Self,
                  self\<lparr>p := pv, pop := Some total,
                       w0 := Some (map (\<lambda>x. np_div x total) initial_conds)\<rparr>)))"

subsection \<open>r0\<close>

text \<open>\<^verbatim>\<open>self.p[0] / self.p[1]\<close>: \<^verbatim>\<open>None\<close> and a float cannot be indexed.\<close>

definition r0 :: "model \<Rightarrow> exn + npfloat" where
  "r0 self =
     (case p self of
        Scalar _ \<Rightarrow> Inl TypeError
      | PyList xs \<Rightarrow>
          (case getitem xs 0 of
             Inl e \<Rightarrow> Inl e
           | Inr a \<Rightarrow> (case getitem xs 1 of Inl e \<Rightarrow> Inl e | Inr b \<Rightarrow> py_truediv False a b))
      | NdArray xs \<Rightarrow>
          (case getitem xs 0 of
             Inl e \<Rightarrow> Inl e
           | Inr a \<Rightarrow>
               (case getitem xs 1 of
                  Inl e \<Rightarrow> Inl e
                | Inr b \<Rightarrow> py_truediv (list_all is_float xs) a b)))"

section \<open>numpy and scipy\<close>

text \<open>The module constants. \<^verbatim>\<open>DAYS\<close> and \<^verbatim>\<open>NUMPOINTS\<close> are the defaults of \<^verbatim>\<open>solve\<close>.\<close>

definition ABSERR :: real where
  "ABSERR = 1 / 10 ^ 8"

definition RELERR :: real where
  "RELERR = 1 / 10 ^ 6"

definition DAYS :: int where
  "DAYS = 7"

definition NUMPOINTS :: int where
  "NUMPOINTS = DAYS"

text \<open>
  \<^verbatim>\<open>np.linspace(start, stop, num)\<close>: a negative \<^verbatim>\<open>num\<close> raises; one sample is \<^verbatim>\<open>start\<close>
  alone; otherwise sample \<^verbatim>\<open>i\<close> is \<^verbatim>\<open>start + i * step\<close> with
  \<^verbatim>\<open>step = (stop - start) / (num - 1)\<close>, and the last sample is set to \<^verbatim>\<open>stop\<close>.
\<close>

definition linspace_samples :: "real \<Rightarrow> real \<Rightarrow> nat \<Rightarrow> npfloat list" where
  "linspace_samples start stop n =
     (if n = 0 then []
      else if n = 1 then [Fin start]
      else
        let step = (stop - start) / real (n - 1) in
        map (\<lambda>i. Fin (if i = n - 1 then stop else start + real i * step)) [0..<n])"

definition np_linspace :: "real \<Rightarrow> real \<Rightarrow> int \<Rightarrow> exn + npfloat list" where
  "np_linspace start stop num =
     (if num < 0 then Inl ValueError else Inr (linspace_samples start stop (nat num)))"

text \<open>
  \<^verbatim>\<open>np.insert(arr, 0, values, axis=1)\<close>: a new first column. \<^verbatim>\<open>values\<close> has one entry
  per row, or a single entry that is broadcast.
\<close>

definition np_insert :: "npfloat list list \<Rightarrow> npfloat list \<Rightarrow> exn + npfloat list list" where
  "np_insert arr vals =
     (if length vals = length arr then Inr (map2 (#) vals arr)
      else if length vals = 1 then Inr (map ((#) (hd vals)) arr)
      else Inl ValueError)"

text \<open>\<^verbatim>\<open>arr[:, 1:] *= c\<close>: every column but the first is multiplied.\<close>

definition scale_states :: "npfloat list list \<Rightarrow> npfloat \<Rightarrow> npfloat list list" where
  "scale_states arr c = map (\<lambda>row. take 1 row @ map (\<lambda>y. np_mul y c) (drop 1 row)) arr"

text \<open>
  What the objective function of \<^verbatim>\<open>fit\<close> returns: a column (one dimension), or, when the
  column index is \<^verbatim>\<open>None\<close>, the matrix with a new axis (three dimensions).
\<close>

datatype ndarr = Arr1 "npfloat list" | Arr3 "npfloat list list list"

text \<open>
  \<^verbatim>\<open>arr[:, idx]\<close>. The column count of a matrix with no row is not represented: there
  every column index is accepted.
\<close>

definition select_column :: "npfloat list list \<Rightarrow> nat option \<Rightarrow> exn + ndarr" where
  "select_column arr idx =
     (case idx of
        None \<Rightarrow> Inr (Arr3 (map (\<lambda>row. [row]) arr))
      | Some k \<Rightarrow>
          if list_all (\<lambda>row. k < length row) arr then Inr (Arr1 (map (\<lambda>row. row ! k) arr))
          else Inl IndexError)"

fun nd_scale :: "ndarr \<Rightarrow> npfloat \<Rightarrow> ndarr" where
  "nd_scale (Arr1 xs) c = Arr1 (map (\<lambda>y. np_mul y c) xs)"
| "nd_scale (Arr3 xs) c = Arr3 (map (map (map (\<lambda>y. np_mul y c))) xs)"

text \<open>\<^verbatim>\<open>np.array(v)\<close>: \<^verbatim>\<open>None\<close> stands for the zero-dimensional array of a single element.\<close>

fun np_array :: "pyval \<Rightarrow> scalar list option" where
  "np_array (Scalar _) = None"
| "np_array (PyList xs) = Some xs"
| "np_array (NdArray xs) = Some xs"

text \<open>
  Indexing with a list of booleans. An empty list selects nothing from an array of any
  length; any other list is a mask and must be as long as the array.
\<close>

definition selected :: "bool list \<Rightarrow> nat" where
  "selected bs = length (filter (\<lambda>b. b) bs)"

fun mask_get :: "bool list \<Rightarrow> 'a list \<Rightarrow> 'a list" where
  "mask_get (b # bs) (x # xs) = (if b then x # mask_get bs xs else mask_get bs xs)"
| "mask_get _ _ = []"

fun mask_put :: "bool list \<Rightarrow> 'a list \<Rightarrow> 'a list \<Rightarrow> 'a list" where
  "mask_put (b # bs) (x # xs) vs =
     (if b then (case vs of [] \<Rightarrow> x # mask_put bs xs [] | v # rest \<Rightarrow> v # mask_put bs xs rest)
      else x # mask_put bs xs vs)"
| "mask_put _ xs _ = xs"

definition np_getmask :: "scalar list option \<Rightarrow> bool list \<Rightarrow> exn + scalar list" where
  "np_getmask arr bs =
     (case arr of
        None \<Rightarrow> Inl IndexError
      | Some xs \<Rightarrow>
          if bs \<noteq> [] \<and> length bs \<noteq> length xs then Inl IndexError
          else Inr (mask_get bs xs))"

text \<open>The values assigned through a mask: one per selected entry, or one for all of them.\<close>

definition broadcast :: "nat \<Rightarrow> 'a list \<Rightarrow> exn + 'a list" where
  "broadcast k vs =
     (if length vs = k then Inr vs
      else if length vs = 1 then Inr (replicate k (hd vs))
      else Inl ValueError)"

definition np_setmask :: "scalar list option \<Rightarrow> bool list \<Rightarrow> npfloat list \<Rightarrow> exn + scalar list" where
  "np_setmask arr bs vals =
     (case arr of
        None \<Rightarrow> Inl IndexError
      | Some xs \<Rightarrow>
          if bs \<noteq> [] \<and> length bs \<noteq> length xs then Inl IndexError
          else
            (case broadcast (selected bs) vals of
               Inl e \<Rightarrow> Inl e
             | Inr vs \<Rightarrow> Inr (mask_put bs xs (map PyFloat vs))))"

text \<open>\<^verbatim>\<open>v[mask] = vals\<close> on a stored value: only an array takes a list as index.\<close>

fun py_setitem :: "pyval \<Rightarrow> bool list \<Rightarrow> npfloat list \<Rightarrow> exn + pyval" where
  "py_setitem (Scalar _) bs vals = Inl TypeError"
| "py_setitem (PyList _) bs vals = Inl TypeError"
| "py_setitem (NdArray xs) bs vals =
     (case np_setmask (Some xs) bs vals of Inl e \<Rightarrow> Inl e | Inr ys \<Rightarrow> Inr (NdArray ys))"

text \<open>
  scipy's optimizer is not part of the program. A call of \<^verbatim>\<open>curve_fit\<close> is a tree: it
  returns the optimal values and their covariance, or raises, or evaluates the objective
  function at trial values and goes on from what the function returned. An exception of
  the objective function leaves \<^verbatim>\<open>curve_fit\<close> as it is.
\<close>

datatype optree =
    Return "npfloat list" "npfloat list list"
  | Raise exn
  | Eval "npfloat list" "ndarr \<Rightarrow> optree"

text \<open>
  The two functions of scipy, as parameters: \<^verbatim>\<open>odeint(func, y0, t, args=(p,), atol, rtol)\<close>
  and \<^verbatim>\<open>curve_fit(f, xdata, ydata, p0, bounds)\<close>, the latter calling \<^verbatim>\<open>f(xdata, *trial)\<close>.
\<close>

record scipy =
  odeint :: "deriv \<Rightarrow> npfloat list option \<Rightarrow> npfloat list \<Rightarrow> pyval \<Rightarrow> real \<Rightarrow> real
               \<Rightarrow> exn + npfloat list list"
  curve_fit :: "npfloat list \<Rightarrow> npfloat list \<Rightarrow> scalar list \<Rightarrow> npfloat list \<times> npfloat list
                  \<Rightarrow> optree"

primrec run_opt ::
  "(npfloat list \<Rightarrow> model \<Rightarrow> (exn + ndarr) \<times> model) \<Rightarrow> optree \<Rightarrow> model
     \<Rightarrow> (exn + npfloat list \<times> npfloat list list) \<times> model" where
  "run_opt f (Return par_opt c) = (\<lambda>self. (Inr (par_opt, c), self))"
| "run_opt f (Raise e) = (\<lambda>self. (Inl e, self))"
| "run_opt f (Eval par_fit k) =
     (\<lambda>self. case f par_fit self of
                (Inl e, self1) \<Rightarrow> (Inl e, self1)
              | (Inr y, self1) \<Rightarrow> run_opt f (k y) self1)"

text \<open>The trial values at which a run evaluated the objective function, in order.\<close>

primrec trials ::
  "(npfloat list \<Rightarrow> model \<Rightarrow> (exn + ndarr) \<times> model) \<Rightarrow> optree \<Rightarrow> model \<Rightarrow> npfloat list list" where
  "trials f (Return par_opt c) = (\<lambda>self. [])"
| "trials f (Raise e) = (\<lambda>self. [])"
| "trials f (Eval par_fit k) =
     (\<lambda>self. par_fit #
        (case f par_fit self of
           (Inl e, self1) \<Rightarrow> []
         | (Inr y, self1) \<Rightarrow> trials f (k y) self1))"

section \<open>Solving and fitting\<close>

definition call_solver ::
  "scipy \<Rightarrow> deriv \<Rightarrow> pyval \<Rightarrow> npfloat list option \<Rightarrow> npfloat list \<Rightarrow> exn + npfloat list list" where
  "call_solver E func pv y0 t =
     (case odeint E func y0 t pv ABSERR RELERR of
        Inl e \<Rightarrow> Inl e
      | Inr s \<Rightarrow> np_insert s t)"

subsection \<open>solve\<close>

text \<open>
  Both arguments are explicit. \<^verbatim>\<open>self._model\<close> is evaluated before the call of
  \<^verbatim>\<open>call_solver\<close>; multiplying by a population that is \<^verbatim>\<open>None\<close> raises.
\<close>

definition solve :: "variant \<Rightarrow> scipy \<Rightarrow> model \<Rightarrow> real \<Rightarrow> int \<Rightarrow> (exn + ret) \<times> model" where
  "solve V E self tf_days numpoints =
     (case np_linspace 0 tf_days numpoints of
        Inl e \<Rightarrow> (Inl e, self)
      | Inr tspan \<Rightarrow>
          (case priv_model V of
             Inl e \<Rightarrow> (Inl e, self)
           | Inr func \<Rightarrow>
               (case call_solver E func (p self) (w0 self) tspan of
                  Inl e \<Rightarrow> (Inl e, self)
                | Inr s \<Rightarrow>
                    (case pop self of
                       None \<Rightarrow> (Inl TypeError, self)
                     | Some c \<Rightarrow> (Inr Self, self\<lparr>sol := Some (scale_states s c)\<rparr>)))))"

subsection \<open>fit\<close>

text \<open>\<^verbatim>\<open>fit_index = [False for i in range(len(self.p))]; fit_index[0] = True\<close>.\<close>

definition default_fit_index :: "model \<Rightarrow> exn + bool list" where
  "default_fit_index self =
     (case py_len (p self) of
        Inl e \<Rightarrow> Inl e
      | Inr n \<Rightarrow> if 0 < n then Inr ((replicate n False)[0 := True]) else Inl IndexError)"

definition the_fit_index :: "model \<Rightarrow> bool list option \<Rightarrow> exn + bool list" where
  "the_fit_index self fit_index =
     (case fit_index of None \<Rightarrow> default_fit_index self | Some fi \<Rightarrow> Inr fi)"

text \<open>
  The objective function \<^verbatim>\<open>function_handle(t, *par_fit, pop=population)\<close>. The assignment
  to \<^verbatim>\<open>self.p\<close> comes before the hook and before the integration.
\<close>

definition function_handle ::
  "variant \<Rightarrow> scipy \<Rightarrow> bool list \<Rightarrow> npfloat \<Rightarrow> npfloat list \<Rightarrow> npfloat list \<Rightarrow> model
     \<Rightarrow> (exn + ndarr) \<times> model" where
  "function_handle V E fit_index population t par_fit self =
     (case np_setmask (np_array (p self)) fit_index par_fit of
        Inl e \<Rightarrow> (Inl e, self)
      | Inr params \<Rightarrow>
          let self1 = self\<lparr>p := NdArray params\<rparr>;
              self2 = priv_update_ic V self1
          in
            (case priv_model V of
               Inl e \<Rightarrow> (Inl e, self2)
             | Inr func \<Rightarrow>
                 (case call_solver E func (p self2) (w0 self2) t of
                    Inl e \<Rightarrow> (Inl e, self2)
                  | Inr sol_mod \<Rightarrow>
                      (case select_column sol_mod (fit_input self2) of
                         Inl e \<Rightarrow> (Inl e, self2)
                       | Inr col \<Rightarrow> (Inr (nd_scale col population), self2)))))"

text \<open>
  The call of \<^verbatim>\<open>curve_fit\<close>, with the bounds \<^verbatim>\<open>np.zeros(n)\<close> and \<^verbatim>\<open>np.ones(n) * 100\<close>.
\<close>

definition call_curve_fit ::
  "variant \<Rightarrow> scipy \<Rightarrow> model \<Rightarrow> npfloat list \<Rightarrow> npfloat list \<Rightarrow> npfloat \<Rightarrow> bool list \<Rightarrow> scalar list
     \<Rightarrow> (exn + npfloat list \<times> npfloat list list) \<times> model" where
  "call_curve_fit V E self t_obs n_i_obs population fit_index fit_params0 =
     (let bounds = (replicate (length fit_params0) (Fin 0),
                    map (\<lambda>x. np_mul x (Fin 100)) (replicate (length fit_params0) (Fin 1)))
      in run_opt (function_handle V E fit_index population t_obs)
           (curve_fit E t_obs n_i_obs fit_params0 bounds) self)"

text \<open>The trial values of that call.\<close>

definition fit_trials ::
  "variant \<Rightarrow> scipy \<Rightarrow> model \<Rightarrow> npfloat list \<Rightarrow> npfloat list \<Rightarrow> npfloat \<Rightarrow> bool list \<Rightarrow> scalar list
     \<Rightarrow> npfloat list list" where
  "fit_trials V E self t_obs n_i_obs population fit_index fit_params0 =
     (let bounds = (replicate (length fit_params0) (Fin 0),
                    map (\<lambda>x. np_mul x (Fin 100)) (replicate (length fit_params0) (Fin 1)))
      in trials (function_handle V E fit_index population t_obs)
           (curve_fit E t_obs n_i_obs fit_params0 bounds) self)"

definition fit ::
  "variant \<Rightarrow> scipy \<Rightarrow> model \<Rightarrow> npfloat list \<Rightarrow> npfloat list \<Rightarrow> npfloat \<Rightarrow> bool list option
     \<Rightarrow> (exn + ret) \<times> model" where
  "fit V E self t_obs n_i_obs population fit_index =
     (case the_fit_index self fit_index of
        Inl e \<Rightarrow> (Inl e, self)
      | Inr fi \<Rightarrow>
          (case np_getmask (np_array (p self)) fi of
             Inl e \<Rightarrow> (Inl e, self)
           | Inr fit_params0 \<Rightarrow>
               (case call_curve_fit V E self t_obs n_i_obs population fi fit_params0 of
                  (Inl e, self1) \<Rightarrow> (Inl e, self1)
                | (Inr (par_opt, c), self1) \<Rightarrow>
                    (case py_setitem (p self1) fi par_opt of
                       Inl e \<Rightarrow> (Inl e, self1)
                     | Inr arr \<Rightarrow> (Inr Self, self1\<lparr>p := arr, pcov := Some c\<rparr>)))))"

section \<open>Example instances\<close>

text \<open>
  A subclass with two parameters and two compartments whose derivative is zero, and a scipy
  for it: an integrator that returns the initial state at every time (the solution of that
  system), and an optimizer that evaluates its initial guess, then twice that guess, and
  returns the latter.
\<close>

definition still :: deriv where
  "still w t pv = map (\<lambda>_. Fin 0) w"

definition Still :: variant where
  "Still = \<lparr>NUM_PARAMS = 2, NUM_IC = 2, priv_model = Inr still,
            priv_update_ic = (\<lambda>self. self)\<rparr>"

fun the_float :: "scalar \<Rightarrow> npfloat" where
  "the_float (PyFloat v) = v"
| "the_float PyNone = NaN"

definition hold :: scipy where
  "hold =
     \<lparr>odeint = (\<lambda>func y0 t pv atol rtol.
                  case y0 of None \<Rightarrow> Inl TypeError | Some y \<Rightarrow> Inr (map (\<lambda>_. y) t)),
      curve_fit = (\<lambda>xdata ydata p0 bounds.
                  Eval (map the_float p0)
                    (\<lambda>_. Eval (map (\<lambda>x. np_mul (the_float x) (Fin 2)) p0)
                       (\<lambda>_. Return (map (\<lambda>x. np_mul (the_float x) (Fin 2)) p0) [[Fin 0]])))\<rparr>"

text \<open>
  An instance of that subclass after \<^verbatim>\<open>set_params([0.5, 0.2], [990, 10])\<close>, the second
  compartment being the observed one.
\<close>

definition outbreak :: model where
  "outbreak = init\<lparr>p := PyList [PyFloat (Fin (1 / 2)), PyFloat (Fin (1 / 5))],
                    pop := Some (Fin 1000), w0 := Some [Fin (99 / 100), Fin (1 / 100)],
                    fit_input := Some 2\<rparr>"

text \<open>The same scipy with an optimizer that gives up after its two evaluations.\<close>

definition diverge :: scipy where
  "diverge =
     hold\<lparr>curve_fit := (\<lambda>xdata ydata p0 bounds.
                  Eval (map the_float p0)
                    (\<lambda>_. Eval (map (\<lambda>x. np_mul (the_float x) (Fin 2)) p0)
                       (\<lambda>_. Raise RuntimeError)))\<rparr>"

section \<open>Properties of set_params and r0\<close>

lemma py_gt_positive: "py_gt x (PyFloat (Fin 0)) = Inr True \<longleftrightarrow> positive x"
  by (cases x) auto

lemma assert_positive_iff: "assert_positive xs = Inr () \<longleftrightarrow> list_all positive xs"
proof (induction xs)
  case Nil
  show ?case by simp
next
  case (Cons x xs)
  show ?case
  proof (cases "py_gt x (PyFloat (Fin 0))")
    case (Inl e)
    then have "\<not> positive x" using py_gt_positive [of x] by simp
    with Inl show ?thesis by simp
  next
    case (Inr b)
    then have "positive x = b" using py_gt_positive [of x] by auto
    with Inr Cons.IH show ?thesis by simp
  qed
qed

lemma try_body_iter: "py_iter pv = Inr xs \<Longrightarrow> try_body pv = assert_positive xs"
  by (simp add: try_body_def)

lemma try_body_Inr:
  "try_body pv = Inr u \<Longrightarrow> \<exists>xs. py_iter pv = Inr xs \<and> list_all positive xs"
  by (cases "py_iter pv") (simp_all add: try_body_def assert_positive_iff)

lemma set_params_invalid:
  "try_body pv \<noteq> Inr () \<Longrightarrow> set_params V self pv ic = (Inl InvalidParameterError, self)"
  by (cases "try_body pv") (simp_all add: set_params_def)

lemma py_len_iter: "py_iter pv = Inr xs \<Longrightarrow> py_len pv = Inr (length xs)"
  by (cases pv) auto

lemma set_params_valid:
  assumes "py_iter pv = Inr xs" and "list_all positive xs"
  shows "set_params V self pv ic =
           (if length xs \<noteq> NUM_PARAMS V \<or> length ic \<noteq> NUM_IC V
            then (Inl InvalidNumberOfParametersError, self)
            else (Inr Self,
                  self\<lparr>p := pv, pop := Some (np_sum ic),
                       w0 := Some (map (\<lambda>x. np_div x (np_sum ic)) ic)\<rparr>))"
proof -
  have "try_body pv = Inr ()"
    using assms by (simp add: try_body_iter assert_positive_iff)
  moreover have "py_len pv = Inr (length xs)"
    using assms(1) by (rule py_len_iter)
  ultimately show ?thesis
    by (simp add: set_params_def Let_def)
qed

lemma set_params_Inr:
  assumes "set_params V self pv ic = (Inr Self, self')"
  shows "\<exists>xs. py_iter pv = Inr xs \<and> list_all positive xs \<and> length xs = NUM_PARAMS V
            \<and> length ic = NUM_IC V
            \<and> self' = self\<lparr>p := pv, pop := Some (np_sum ic),
                            w0 := Some (map (\<lambda>x. np_div x (np_sum ic)) ic)\<rparr>"
proof (cases "try_body pv")
  case (Inl e)
  then have "set_params V self pv ic = (Inl InvalidParameterError, self)"
    by (simp add: set_params_invalid)
  with assms show ?thesis by simp
next
  case (Inr u)
  then obtain xs where xs: "py_iter pv = Inr xs" "list_all positive xs"
    using try_body_Inr by blast
  from assms show ?thesis
    unfolding set_params_valid [OF xs] using xs by (auto split: if_splits)
qed

lemma positive_cases: "positive x \<Longrightarrow> \<exists>v. x = PyFloat v \<and> np_less (Fin 0) v \<and> v \<noteq> Fin 0"
  by (cases x) auto

lemma positive_is_float: "list_all positive xs \<Longrightarrow> list_all is_float xs"
  by (induction xs) (auto dest: positive_cases)






text \<open>
  C1. A parameter sequence with an element that is not strictly positive makes
  \<^verbatim>\<open>set_params\<close> raise \<^verbatim>\<open>InvalidParameterError\<close>, and the instance is left exactly as it was:
  nothing is assigned before the check.
\<close>

theorem set_params_nonpositive_rejected:
  assumes "py_iter pv = Inr xs" and "PyFloat v \<in> set xs" and "\<not> np_less (Fin 0) v"
  shows "set_params V self pv initial_conds = (Inl InvalidParameterError, self)"
proof -
  have "\<not> list_all positive xs"
  proof
    assume "list_all positive xs"
    with assms(2) have "positive (PyFloat v)" by (auto simp: list_all_iff)
    with assms(3) show False by simp
  qed
  with assms(1) have "try_body pv \<noteq> Inr ()"
    by (simp add: try_body_iter assert_positive_iff)
  then show ?thesis by (rule set_params_invalid)
qed

text \<open>
  The parameters \<^verbatim>\<open>[0.3, 0.1, 0, 0]\<close> of the specification, on an instance that already
  holds parameters, a population, a solution and a covariance.
\<close>

theorem set_params_nonpositive_rejected_witness:
  "set_params Model
     \<lparr>sol = Some [[Fin 0, Fin 2]], p = PyList [PyFloat (Fin 1)], pop = Some (Fin 2),
      w0 = Some [Fin 1], pcov = Some [[Fin 1]], fit_input = Some 1\<rparr>
     (PyList [PyFloat (Fin (3 / 10)), PyFloat (Fin (1 / 10)), PyFloat (Fin 0), PyFloat (Fin 0)])
     [Fin 990, Fin 10, Fin 0, Fin 0]
   = (Inl InvalidParameterError,
      \<lparr>sol = Some [[Fin 0, Fin 2]], p = PyList [PyFloat (Fin 1)], pop = Some (Fin 2),
       w0 = Some [Fin 1], pcov = Some [[Fin 1]], fit_input = Some 1\<rparr>)"
  using set_params_nonpositive_rejected
      [of "PyList [PyFloat (Fin (3 / 10)), PyFloat (Fin (1 / 10)), PyFloat (Fin 0), PyFloat (Fin 0)]"
          "[PyFloat (Fin (3 / 10)), PyFloat (Fin (1 / 10)), PyFloat (Fin 0), PyFloat (Fin 0)]"
          "Fin 0"]
  by simp

text \<open>
  C2. When every parameter is strictly positive and both lengths are the declared ones,
  \<^verbatim>\<open>set_params\<close> returns the instance, having stored \<^verbatim>\<open>p\<close> as it was given, the sum of the
  initial conditions as population, and the initial conditions divided by that sum.
\<close>

theorem set_params_stores:
  assumes "py_iter pv = Inr xs" and "list_all positive xs"
    and "length xs = NUM_PARAMS V" and "length initial_conds = NUM_IC V"
  shows "set_params V self pv initial_conds =
           (Inr Self,
            self\<lparr>p := pv, pop := Some (np_sum initial_conds),
                 w0 := Some (map (\<lambda>x. np_div x (np_sum initial_conds)) initial_conds)\<rparr>)"
  using assms by (simp add: set_params_valid)

theorem set_params_stores_witness:
  "set_params (Model\<lparr>NUM_PARAMS := 2, NUM_IC := 2\<rparr>) init
     (PyList [PyFloat (Fin (1 / 2)), PyFloat (Fin (1 / 5))]) [Fin 990, Fin 10]
   = (Inr Self,
      init\<lparr>p := PyList [PyFloat (Fin (1 / 2)), PyFloat (Fin (1 / 5))],
           pop := Some (Fin 1000), w0 := Some [Fin (99 / 100), Fin (1 / 100)]\<rparr>)"
  using set_params_stores [of "PyList [PyFloat (Fin (1 / 2)), PyFloat (Fin (1 / 5))]"
      "[PyFloat (Fin (1 / 2)), PyFloat (Fin (1 / 5))]" "Model\<lparr>NUM_PARAMS := 2, NUM_IC := 2\<rparr>"
      "[Fin 990, Fin 10]" init]
  by simp

text \<open>
  C4, as stated: every length mismatch raises \<^verbatim>\<open>InvalidNumberOfParametersError\<close>. It does
  not when a parameter is not positive: the positivity check comes first. Three parameters
  where four are declared, the last one zero, raise \<^verbatim>\<open>InvalidParameterError\<close>.
\<close>

theorem set_params_count_counterexample:
  "length [PyFloat (Fin (3 / 10)), PyFloat (Fin (1 / 10)), PyFloat (Fin 0)] \<noteq> NUM_PARAMS Model
   \<and> fst (set_params Model init
            (PyList [PyFloat (Fin (3 / 10)), PyFloat (Fin (1 / 10)), PyFloat (Fin 0)])
            [Fin 990, Fin 10, Fin 0, Fin 0])
       = Inl InvalidParameterError"
  by (simp add: Model_def set_params_def try_body_def)

text \<open>
  C4, amended: when every parameter is strictly positive and either length differs from
  the declared one, \<^verbatim>\<open>set_params\<close> raises \<^verbatim>\<open>InvalidNumberOfParametersError\<close> (and leaves the
  instance as it was).
\<close>

theorem set_params_count_rejected:
  assumes "py_iter pv = Inr xs" and "list_all positive xs"
    and "length xs \<noteq> NUM_PARAMS V \<or> length initial_conds \<noteq> NUM_IC V"
  shows "set_params V self pv initial_conds = (Inl InvalidNumberOfParametersError, self)"
  using assms by (simp add: set_params_valid)

theorem set_params_count_rejected_witness:
  "set_params Model init (PyList [PyFloat (Fin (1 / 2)), PyFloat (Fin (1 / 5))])
     [Fin 990, Fin 10, Fin 0, Fin 0]
   = (Inl InvalidNumberOfParametersError, init)"
  using set_params_count_rejected [of "PyList [PyFloat (Fin (1 / 2)), PyFloat (Fin (1 / 5))]"
      "[PyFloat (Fin (1 / 2)), PyFloat (Fin (1 / 5))]" Model "[Fin 990, Fin 10, Fin 0, Fin 0]" init]
  by (simp add: Model_def)




text \<open>
  C9. After a successful \<^verbatim>\<open>set_params\<close> on a model that declares at least two parameters
  (the base class declares four), \<^verbatim>\<open>r0\<close> returns the first parameter divided by the second.
\<close>

theorem r0_after_set_params:
  assumes "set_params V self pv initial_conds = (Inr Self, self')" and "2 \<le> NUM_PARAMS V"
  shows "\<exists>xs a b. py_iter pv = Inr xs \<and> xs ! 0 = PyFloat a \<and> xs ! 1 = PyFloat b
            \<and> r0 self' = Inr (np_div a b)"
proof -
  from set_params_Inr [OF assms(1)] obtain xs where
    xs: "py_iter pv = Inr xs" "list_all positive xs" "length xs = NUM_PARAMS V"
    and st: "p self' = pv" by auto
  from xs(3) assms(2) have len: "0 < length xs" "1 < length xs" by simp_all
  with xs(2) have "positive (xs ! 0)" "positive (xs ! 1)"
    by (simp_all add: list_all_length)
  then obtain a b where ab: "xs ! 0 = PyFloat a" "xs ! 1 = PyFloat b" "b \<noteq> Fin 0"
    by (blast dest: positive_cases)
  have "r0 self' = Inr (np_div a b)"
  proof (cases pv)
    case (Scalar s)
    with xs(1) show ?thesis by simp
  next
    case (PyList ys)
    with xs(1) have "ys = xs" by simp
    with PyList st len ab show ?thesis by (simp add: r0_def getitem_def)
  next
    case (NdArray ys)
    with xs(1) have "ys = xs" by simp
    with NdArray st len ab positive_is_float [OF xs(2)] show ?thesis
      by (simp add: r0_def getitem_def)
  qed
  with xs(1) ab show ?thesis by blast
qed

text \<open>The base class, with four parameters: \<^verbatim>\<open>r0 = 0.3 / 0.1\<close>.\<close>

theorem r0_after_set_params_witness:
  "set_params Model init
     (PyList [PyFloat (Fin (3 / 10)), PyFloat (Fin (1 / 10)), PyFloat (Fin (1 / 5)),
              PyFloat (Fin (2 / 5))])
     [Fin 990, Fin 10, Fin 0, Fin 0]
   = (Inr Self,
      init\<lparr>p := PyList [PyFloat (Fin (3 / 10)), PyFloat (Fin (1 / 10)), PyFloat (Fin (1 / 5)),
                        PyFloat (Fin (2 / 5))],
           pop := Some (Fin 1000),
           w0 := Some [Fin (99 / 100), Fin (1 / 100), Fin 0, Fin 0]\<rparr>)
   \<and> r0 (init\<lparr>p := PyList [PyFloat (Fin (3 / 10)), PyFloat (Fin (1 / 10)),
                            PyFloat (Fin (1 / 5)), PyFloat (Fin (2 / 5))],
              pop := Some (Fin 1000),
              w0 := Some [Fin (99 / 100), Fin (1 / 100), Fin 0, Fin 0]\<rparr>)
       = Inr (Fin 3)"
proof -
  have ok: "set_params Model init
              (PyList [PyFloat (Fin (3 / 10)), PyFloat (Fin (1 / 10)), PyFloat (Fin (1 / 5)),
                       PyFloat (Fin (2 / 5))])
              [Fin 990, Fin 10, Fin 0, Fin 0]
            = (Inr Self,
               init\<lparr>p := PyList [PyFloat (Fin (3 / 10)), PyFloat (Fin (1 / 10)),
                                 PyFloat (Fin (1 / 5)), PyFloat (Fin (2 / 5))],
                    pop := Some (Fin 1000),
                    w0 := Some [Fin (99 / 100), Fin (1 / 100), Fin 0, Fin 0]\<rparr>)"
    by (simp add: set_params_def try_body_def Model_def)
  have "2 \<le> NUM_PARAMS Model" by (simp add: Model_def)
  from r0_after_set_params [OF ok this] ok show ?thesis by auto
qed

text \<open>
  C10. When iterating over \<^verbatim>\<open>p\<close> raises, or comparing one of its elements with zero
  raises, \<^verbatim>\<open>set_params\<close> raises \<^verbatim>\<open>InvalidParameterError\<close> and not the exception met: the
  bare \<^verbatim>\<open>except:\<close> catches every exception of the check.
\<close>

theorem set_params_catches_all:
  assumes "(\<exists>e. py_iter pv = Inl e) \<or>
           (\<exists>xs x e. py_iter pv = Inr xs \<and> x \<in> set xs \<and> py_gt x (PyFloat (Fin 0)) = Inl e)"
  shows "set_params V self pv initial_conds = (Inl InvalidParameterError, self)"
proof -
  have "try_body pv \<noteq> Inr ()"
    using assms
  proof
    assume "\<exists>e. py_iter pv = Inl e"
    then show ?thesis by (auto simp: try_body_def)
  next
    assume "\<exists>xs x e. py_iter pv = Inr xs \<and> x \<in> set xs \<and> py_gt x (PyFloat (Fin 0)) = Inl e"
    then obtain xs x e where h: "py_iter pv = Inr xs" "x \<in> set xs"
      "py_gt x (PyFloat (Fin 0)) = Inl e" by blast
    from h(3) have "\<not> positive x" using py_gt_positive [of x] by simp
    with h(2) have "\<not> list_all positive xs" by (auto simp: list_all_iff)
    with h(1) show ?thesis by (simp add: try_body_iter assert_positive_iff)
  qed
  then show ?thesis by (rule set_params_invalid)
qed

text \<open>\<^verbatim>\<open>p = None\<close> is not iterable; in \<^verbatim>\<open>p = [1.0, None]\<close> the second element is not comparable.\<close>

theorem set_params_catches_all_witness:
  "py_iter (Scalar PyNone) = Inl TypeError
   \<and> set_params Model init (Scalar PyNone) [Fin 990, Fin 10, Fin 0, Fin 0]
       = (Inl InvalidParameterError, init)
   \<and> py_gt PyNone (PyFloat (Fin 0)) = Inl TypeError
   \<and> set_params Model init (PyList [PyFloat (Fin 1), PyNone]) [Fin 990, Fin 10, Fin 0, Fin 0]
       = (Inl InvalidParameterError, init)"
proof -
  have a: "\<exists>e. py_iter (Scalar PyNone) = Inl e" by simp
  have b: "\<exists>xs x e. py_iter (PyList [PyFloat (Fin 1), PyNone]) = Inr xs \<and> x \<in> set xs
             \<and> py_gt x (PyFloat (Fin 0)) = Inl e"
    by (intro exI [of _ "[PyFloat (Fin 1), PyNone]"] exI [of _ PyNone] exI [of _ TypeError]) simp
  show ?thesis
    using set_params_catches_all [OF disjI1, OF a, of Model init "[Fin 990, Fin 10, Fin 0, Fin 0]"]
      set_params_catches_all [OF disjI2, OF b, of Model init "[Fin 990, Fin 10, Fin 0, Fin 0]"]
    by simp
qed

section \<open>Properties of solve\<close>









section \<open>Properties of fit\<close>


























lemmas fit_eval_defs =
  fit_def the_fit_index_def default_fit_index_def np_getmask_def call_curve_fit_def
  fit_trials_def function_handle_def np_setmask_def broadcast_def selected_def
  call_solver_def np_insert_def select_column_def hold_def diverge_def Still_def Model_def
  outbreak_def init_def Let_def




lemma outbreak_fit_none:
  "fit Still hold outbreak [Fin 0, Fin 1] [Fin 10, Fin 12] (Fin 1000) (Some [False, False])
   = (Inr Self,
      outbreak\<lparr>p := NdArray [PyFloat (Fin (1 / 2)), PyFloat (Fin (1 / 5))],
               pcov := Some [[Fin 0]]\<rparr>)"
  by (simp add: fit_eval_defs)

lemma base_fit_none:
  "fit Model hold
     (init\<lparr>p := PyList [PyFloat (Fin 1), PyFloat (Fin 1), PyFloat (Fin 1), PyFloat (Fin 1)],
           pop := Some (Fin 4), w0 := Some [Fin 1, Fin 0, Fin 0, Fin 0]\<rparr>)
     [Fin 0, Fin 1] [Fin 10, Fin 12] (Fin 1000) (Some [False, False, False, False])
   = (Inl Exception,
      init\<lparr>p := NdArray [PyFloat (Fin 1), PyFloat (Fin 1), PyFloat (Fin 1), PyFloat (Fin 1)],
           pop := Some (Fin 4), w0 := Some [Fin 1, Fin 0, Fin 0, Fin 0]\<rparr>)"
  by (simp add: fit_eval_defs)





section \<open>Further properties\<close>

text \<open>
  \<^verbatim>\<open>set_params\<close> never touches the solution, the covariance or the observed column:
  a covariance stored by an earlier \<^verbatim>\<open>fit\<close> stays, also when new parameters are accepted.
\<close>

theorem set_params_keeps_covariance:
  "pcov (snd (set_params V self pv initial_conds)) = pcov self
   \<and> sol (snd (set_params V self pv initial_conds)) = sol self
   \<and> fit_input (snd (set_params V self pv initial_conds)) = fit_input self"
  by (simp add: set_params_def Let_def split: sum.splits)

theorem set_params_keeps_covariance_witness:
  "pcov (snd (set_params Still (outbreak\<lparr>pcov := Some [[Fin 0]]\<rparr>)
            (PyList [PyFloat (Fin 1), PyFloat (Fin 2)]) [Fin 5, Fin 5])) = Some [[Fin 0]]
   \<and> p (snd (set_params Still (outbreak\<lparr>pcov := Some [[Fin 0]]\<rparr>)
            (PyList [PyFloat (Fin 1), PyFloat (Fin 2)]) [Fin 5, Fin 5]))
       = PyList [PyFloat (Fin 1), PyFloat (Fin 2)]"
  using set_params_keeps_covariance [of Still "outbreak\<lparr>pcov := Some [[Fin 0]]\<rparr>"
      "PyList [PyFloat (Fin 1), PyFloat (Fin 2)]" "[Fin 5, Fin 5]"]
  by (simp add: set_params_def try_body_def Still_def)

text \<open>
  On the base class, whose \<^verbatim>\<open>_model\<close> raises, \<^verbatim>\<open>solve\<close> raises \<^verbatim>\<open>Exception\<close> for
  every point count that is not negative, and leaves the instance as it was.
\<close>

theorem solve_base_class_raises:
  assumes "0 \<le> numpoints"
  shows "solve Model E self tf_days numpoints = (Inl Exception, self)"
  using assms by (simp add: solve_def np_linspace_def Model_def)

theorem solve_base_class_raises_witness:
  "solve Model hold outbreak 7 7 = (Inl Exception, outbreak)"
  using solve_base_class_raises [of 7 hold outbreak 7] by simp

text \<open>
  Before any \<^verbatim>\<open>set_params\<close> the parameters are \<^verbatim>\<open>None\<close>: \<^verbatim>\<open>fit\<close> raises (from
  \<^verbatim>\<open>len(self.p)\<close> without a selector, from the indexing with one) and \<^verbatim>\<open>r0\<close> raises, the
  instance unchanged.
\<close>

theorem fit_before_set_params:
  "fit V E init t_obs n_i_obs population None = (Inl TypeError, init)
   \<and> fit V E init t_obs n_i_obs population (Some fi) = (Inl IndexError, init)
   \<and> r0 init = Inl TypeError"
  by (simp add: fit_def the_fit_index_def default_fit_index_def np_getmask_def init_def r0_def)

text \<open>
  Without a selector, \<^verbatim>\<open>fit\<close> selects the first parameter only.
\<close>

theorem default_selector_first_only:
  assumes "py_len (p self) = Inr n" and "0 < n"
  shows "the_fit_index self None = Inr (True # replicate (n - 1) False)"
proof -
  from assms(2) obtain k where "n = Suc k" by (cases n) auto
  with assms(1) show ?thesis
    by (simp add: the_fit_index_def default_fit_index_def)
qed

theorem default_selector_first_only_witness:
  "the_fit_index outbreak None = Inr [True, False]"
  using default_selector_first_only [of outbreak 2] by (simp add: outbreak_def)

text \<open>
  Whether it returns or raises, \<^verbatim>\<open>solve\<close> leaves the parameters, the population, the
  normalized initial conditions and the covariance as they were.
\<close>

theorem solve_changes_only_sol:
  "p (snd (solve V E self tf_days numpoints)) = p self
   \<and> pop (snd (solve V E self tf_days numpoints)) = pop self
   \<and> w0 (snd (solve V E self tf_days numpoints)) = w0 self
   \<and> pcov (snd (solve V E self tf_days numpoints)) = pcov self"
  by (simp add: solve_def split: sum.splits option.splits)

end
